theory Spec2Isabelle
  imports Main
begin

section \<open>Strings\<close>

text \<open>
  Identifiers, page texts and messages are Python \<open>str\<close> values. They are modelled as
  \<open>string\<close>, read as ASCII: the character classes, \<open>str.upper\<close>, \<open>str.strip\<close>
  and \<open>str.isdigit\<close> below are Python's on ASCII characters, and every other character
  is left alone by \<open>upper\<close> and belongs to no class.
\<close>

definition newline :: char where
  "newline = CHR 0x0A"

definition is_digit :: "char \<Rightarrow> bool" where
  "is_digit c = (c \<in> set ''0123456789'')"

definition is_upper :: "char \<Rightarrow> bool" where
  "is_upper c = (c \<in> set ''ABCDEFGHIJKLMNOPQRSTUVWXYZ'')"

definition is_lower :: "char \<Rightarrow> bool" where
  "is_lower c = (c \<in> set ''abcdefghijklmnopqrstuvwxyz'')"

text \<open>\<open>str.isspace\<close> on one ASCII character; the regex class \<open>\s\<close> is the same set.\<close>

definition is_space :: "char \<Rightarrow> bool" where
  "is_space c = (c \<in> set [CHR 0x09, CHR 0x0A, CHR 0x0B, CHR 0x0C, CHR 0x0D,
                           CHR 0x1C, CHR 0x1D, CHR 0x1E, CHR 0x1F, CHR 0x20])"

definition upper_char :: "char \<Rightarrow> char" where
  "upper_char c =
     (case map_of (zip ''abcdefghijklmnopqrstuvwxyz'' ''ABCDEFGHIJKLMNOPQRSTUVWXYZ'') c of
        Some u \<Rightarrow> u
      | None \<Rightarrow> c)"

definition lower_char :: "char \<Rightarrow> char" where
  "lower_char c =
     (case map_of (zip ''ABCDEFGHIJKLMNOPQRSTUVWXYZ'' ''abcdefghijklmnopqrstuvwxyz'') c of
        Some l \<Rightarrow> l
      | None \<Rightarrow> c)"

text \<open>\<open>s.upper()\<close>\<close>

definition upper :: "string \<Rightarrow> string" where
  "upper s = map upper_char s"

text \<open>\<open>s.strip()\<close>: leading and trailing whitespace removed.\<close>

definition strip :: "string \<Rightarrow> string" where
  "strip s = rev (dropWhile is_space (rev (dropWhile is_space s)))"

text \<open>\<open>s.isdigit()\<close>: non-empty and all digits.\<close>

definition isdigit :: "string \<Rightarrow> bool" where
  "isdigit s = (s \<noteq> [] \<and> list_all is_digit s)"

text \<open>\<open>s.startswith(p)\<close>\<close>

fun startswith :: "string \<Rightarrow> string \<Rightarrow> bool" where
  "startswith s [] = True"
| "startswith [] (p # ps) = False"
| "startswith (c # cs) (p # ps) = (c = p \<and> startswith cs ps)"

text \<open>\<open>p in s\<close> on strings: \<open>p\<close> occurs in \<open>s\<close> as a contiguous substring.\<close>

fun contains :: "string \<Rightarrow> string \<Rightarrow> bool" where
  "contains p [] = (p = [])"
| "contains p (c # cs) = (startswith (c # cs) p \<or> contains p cs)"

text \<open>An f-string's \<open>'{x}'\<close>: the value between two apostrophes.\<close>

definition quoted :: "string \<Rightarrow> string" where
  "quoted s = [CHR 0x27] @ s @ [CHR 0x27]"

section \<open>The validation regexes\<close>

text \<open>
  Every validation pattern of the source is an alternation of anchored sequences
  \<open>^C1{m1,n1}C2{m2,n2}...$\<close> of bounded repetitions of a character class. A pattern is
  the list of its alternatives, an alternative the list of its repetitions.
\<close>

datatype char_class =
    Alnum       \<comment> \<open>\<open>[a-zA-Z0-9]\<close>\<close>
  | UpperAlnum  \<comment> \<open>\<open>[A-Z0-9]\<close>\<close>
  | UpperAlpha  \<comment> \<open>\<open>[A-Z]\<close>\<close>
  | Digit09     \<comment> \<open>\<open>[0-9]\<close>\<close>
  | BackslashD  \<comment> \<open>\<open>\d\<close>\<close>

fun in_class :: "char_class \<Rightarrow> char \<Rightarrow> bool" where
  "in_class Alnum c = (is_lower c \<or> is_upper c \<or> is_digit c)"
| "in_class UpperAlnum c = (is_upper c \<or> is_digit c)"
| "in_class UpperAlpha c = is_upper c"
| "in_class Digit09 c = is_digit c"
| "in_class BackslashD c = is_digit c"

type_synonym repetition = "char_class \<times> nat \<times> nat"
type_synonym regex = "repetition list list"

text \<open>
  \<open>match_items\<close> matches one alternative at the start of the string. The end anchor
  \<open>$\<close> of Python's \<open>re\<close> (no \<open>MULTILINE\<close>) holds at the end of the string and also just
  before a newline that is the string's last character.
\<close>

fun match_items :: "repetition list \<Rightarrow> string \<Rightarrow> bool" where
  "match_items [] s = (s = [] \<or> s = [newline])"
| "match_items ((C, lo, hi) # rest) s =
     list_ex (\<lambda>k. k \<le> length s \<and> list_all (in_class C) (take k s) \<and> match_items rest (drop k s))
       [lo..<Suc hi]"

text \<open>\<open>REGEX.match(s)\<close>, as a truth value.\<close>

definition re_match :: "regex \<Rightarrow> string \<Rightarrow> bool" where
  "re_match rx s = list_ex (\<lambda>alt. match_items alt s) rx"

definition SERVICE_TAG_REGEX :: regex where
  "SERVICE_TAG_REGEX = [[(Alnum, 7, 7)]]"

definition HP_SERIAL_REGEX :: regex where
  "HP_SERIAL_REGEX = [[(Alnum, 10, 12)]]"

definition VIEWSONIC_SERIAL_REGEX :: regex where
  "VIEWSONIC_SERIAL_REGEX = [[(Alnum, 10, 12)]]"

definition JUNIPER_SERIAL_REGEX :: regex where
  "JUNIPER_SERIAL_REGEX = [[(Alnum, 12, 12)]]"

definition CYBERPOWER_SERIAL_REGEX :: regex where
  "CYBERPOWER_SERIAL_REGEX = [[(Alnum, 12, 12)], [(Alnum, 16, 16)]]"

definition BROTHER_SERIAL_REGEX :: regex where
  "BROTHER_SERIAL_REGEX = [[(Alnum, 15, 15)]]"

definition APPLE_SERIAL_REGEX :: regex where
  "APPLE_SERIAL_REGEX = [[(Alnum, 12, 12)], [(Alnum, 17, 17)]]"

definition ACER_SERIAL_REGEX :: regex where
  "ACER_SERIAL_REGEX = [[(Alnum, 22, 22)], [(BackslashD, 11, 12)]]"

definition LENOVO_SERIAL_REGEX :: regex where
  "LENOVO_SERIAL_REGEX = [[(Alnum, 8, 12)]]"

definition CISCO_SERIAL_REGEX :: regex where
  "CISCO_SERIAL_REGEX = [[(UpperAlpha, 3, 3), (BackslashD, 8, 8)]]"

definition APC_SERIAL_REGEX :: regex where
  "APC_SERIAL_REGEX = [[(UpperAlnum, 12, 12)]]"

definition MICROSOFT_SERIAL_REGEX :: regex where
  "MICROSOFT_SERIAL_REGEX = [[(Digit09, 12, 12)], [(Digit09, 16, 16)], [(UpperAlnum, 12, 12)]]"

definition SAMSUNG_SERIAL_REGEX :: regex where
  "SAMSUNG_SERIAL_REGEX = [[(UpperAlnum, 11, 11)], [(UpperAlnum, 15, 15)]]"

definition VIZIO_SERIAL_REGEX :: regex where
  "VIZIO_SERIAL_REGEX = [[(UpperAlnum, 14, 14)]]"

definition TCL_SERIAL_REGEX :: regex where
  "TCL_SERIAL_REGEX = [[(UpperAlnum, 12, 14)]]"

section \<open>Resolver results\<close>

text \<open>
  Every resolver returns the pair \<open>(model_name, message)\<close>, where \<open>model_name\<close> is a
  string or Python's \<open>None\<close>.
\<close>

type_synonym result = "string option \<times> string"

text \<open>Python's truth value of a \<open>str\<close>-or-\<open>None\<close>: false for \<open>None\<close> and for \<open>""\<close>.\<close>

fun truthy :: "string option \<Rightarrow> bool" where
  "truthy None = False"
| "truthy (Some s) = (s \<noteq> [])"

definition inferred_from_prefix :: "string \<Rightarrow> string" where
  "inferred_from_prefix prefix =
     ''Model inferred from serial number prefix '' @ quoted prefix @ ''. Please verify.''"

definition inferred_from_structure :: string where
  "inferred_from_structure = ''Model inferred from serial number structure. Please verify.''"

section \<open>Inference resolvers\<close>

definition apple_prefix_to_model :: "string \<rightharpoonup> string" where
  "apple_prefix_to_model = map_of
     [(''C02'', ''MacBook Pro (Inferred)''),
      (''C03'', ''MacBook Air (Inferred)''),
      (''C1M'', ''iMac (Inferred)''),
      (''DCP'', ''Mac Mini (Inferred)''),
      (''F4H'', ''iPad Pro (Inferred)''),
      (''F5K'', ''iPad Air (Inferred)''),
      (''F9F'', ''iPhone (Inferred)''),
      (''F9G'', ''iPhone (Inferred)''),
      (''G0C'', ''Apple Watch (Inferred)''),
      (''FTY'', ''iPod Touch (Inferred)'')]"

definition get_apple_model_name :: "string \<Rightarrow> result" where
  "get_apple_model_name serial_number =
     (if \<not> re_match APPLE_SERIAL_REGEX serial_number then
        (None, ''Invalid Apple Serial Number format (must be 12 or 17 alphanumeric characters).'')
      else
        let prefix = upper (take 3 serial_number) in
        case apple_prefix_to_model prefix of
          Some model \<Rightarrow> (Some model, inferred_from_prefix prefix)
        | None \<Rightarrow> (None, ''Could not infer Apple model from serial number prefix.''))"

definition cisco_prefix_to_model :: "string \<rightharpoonup> string" where
  "cisco_prefix_to_model = map_of
     [(''FOX'', ''Cisco Product (Foxconn - Common for Switches/Routers)''),
      (''FOC'', ''Cisco Product (China - Common for Switches/Routers)''),
      (''JAE'', ''Cisco Product (Japan - Older/Specialized Gear)''),
      (''JAB'', ''Cisco Product (Japan - Older/Specialized Gear)''),
      (''KWC'', ''Cisco Product (Common for Access Points/Smaller Devices)'')]"

definition get_cisco_model_name :: "string \<Rightarrow> result" where
  "get_cisco_model_name serial_number =
     (if \<not> re_match CISCO_SERIAL_REGEX serial_number then
        (None, ''Invalid Cisco Serial Number format (must be 11 characters: LLLYYWWXXXX).'')
      else
        let prefix = upper (take 3 serial_number) in
        case cisco_prefix_to_model prefix of
          Some model \<Rightarrow>
            (Some model,
             ''Model inferred from serial number location code '' @ quoted prefix @ ''. Please verify.'')
        | None \<Rightarrow> (Some ''Cisco Network Device (Inferred)'', inferred_from_structure))"

definition get_tcl_model_name :: "string \<Rightarrow> result" where
  "get_tcl_model_name serial_number =
     (if \<not> re_match TCL_SERIAL_REGEX serial_number then
        (None, ''Invalid TCL Serial Number format (must be 12-14 alphanumeric characters).'')
      else (Some ''TCL TV/Display (Inferred)'', inferred_from_structure))"

definition vizio_model_map :: "string \<rightharpoonup> string" where
  "vizio_model_map = map_of
     [(''LTMA'', ''Vizio M-Series TV (Inferred)''),
      (''LTAS'', ''Vizio E-Series TV (Inferred)''),
      (''LTJZ'', ''Vizio V-Series TV (Inferred)''),
      (''LTJA'', ''Vizio D-Series TV (Inferred)'')]"

text \<open>Vizio reads the table with \<open>dict.get\<close> and tests the value's truth.\<close>

definition get_vizio_model_name :: "string \<Rightarrow> result" where
  "get_vizio_model_name serial_number =
     (if \<not> re_match VIZIO_SERIAL_REGEX serial_number then
        (None, ''Invalid Vizio Serial Number format (must be 14 alphanumeric characters).'')
      else
        let prefix = take 4 serial_number;
            model = vizio_model_map prefix in
        if truthy model then (model, inferred_from_prefix prefix)
        else (Some ''Vizio Display/TV (Inferred)'', inferred_from_structure))"

definition get_samsung_model_name :: "string \<Rightarrow> result" where
  "get_samsung_model_name serial_number =
     (if \<not> re_match SAMSUNG_SERIAL_REGEX serial_number then
        (None, ''Invalid Samsung Serial Number format (must be 11 or 15 alphanumeric characters).'')
      else (Some ''Samsung Device (Inferred)'', inferred_from_structure))"

definition get_microsoft_model_name :: "string \<Rightarrow> result" where
  "get_microsoft_model_name serial_number =
     (if \<not> re_match MICROSOFT_SERIAL_REGEX serial_number then
        (None, ''Invalid Microsoft Serial Number format (must be 12 or 16 digits/letters).'')
      else (Some ''Microsoft Surface Device (Inferred)'', inferred_from_structure))"

definition apc_prefix_to_model :: "string \<rightharpoonup> string" where
  "apc_prefix_to_model = map_of
     [(''AS'', ''APC Smart-UPS (Rack/Tower)''),
      (''AP'', ''APC Power Distribution Unit (PDU)''),
      (''BB'', ''APC Back-UPS (Basic Battery Backup)''),
      (''BK'', ''APC Back-UPS (Basic Battery Backup)''),
      (''SM'', ''APC Smart-UPS (Older Models)''),
      (''SU'', ''APC Smart-UPS (Older Models)''),
      (''SY'', ''APC Symmetra (Modular UPS)'')]"

definition get_apc_model_name :: "string \<Rightarrow> result" where
  "get_apc_model_name serial_number =
     (if \<not> re_match APC_SERIAL_REGEX serial_number then
        (None, ''Invalid APC Serial Number format (must be 12 alphanumeric characters).'')
      else
        let prefix = upper (take 2 serial_number) in
        case apc_prefix_to_model prefix of
          Some model \<Rightarrow> (Some model, inferred_from_prefix prefix)
        | None \<Rightarrow> (Some ''APC UPS/Power Device (Inferred)'', inferred_from_structure))"

definition brother_prefix_to_model :: "string \<rightharpoonup> string" where
  "brother_prefix_to_model = map_of
     [(''U6'', ''Brother HL-L Series Laser Printer''),
      (''E6'', ''Brother MFC-L Series All-in-One''),
      (''K6'', ''Brother DCP-L Series All-in-One''),
      (''D6'', ''Brother MFC-J Series Inkjet''),
      (''J6'', ''Brother DCP-J Series Inkjet'')]"

definition get_brother_model_name :: "string \<Rightarrow> result" where
  "get_brother_model_name serial_number =
     (if \<not> re_match BROTHER_SERIAL_REGEX serial_number then
        (None, ''Invalid Brother Serial Number format (must be 15 alphanumeric characters).'')
      else
        let prefix = upper (take 2 serial_number) in
        case brother_prefix_to_model prefix of
          Some model \<Rightarrow> (Some model, inferred_from_prefix prefix)
        | None \<Rightarrow> (None, ''Could not infer Brother model from serial number prefix.''))"

definition cyberpower_prefix_to_model :: "string \<rightharpoonup> string" where
  "cyberpower_prefix_to_model = map_of
     [(''CP'', ''CyberPower CP Series UPS''),
      (''PR'', ''CyberPower PR Series UPS''),
      (''OR'', ''CyberPower OR Series UPS''),
      (''BP'', ''CyberPower Battery Pack''),
      (''CP1'', ''CyberPower CP1500PFCLCD''),
      (''CP2'', ''CyberPower CP1000PFCLCD'')]"

definition get_cyberpower_model_name :: "string \<Rightarrow> result" where
  "get_cyberpower_model_name serial_number =
     (if \<not> re_match CYBERPOWER_SERIAL_REGEX serial_number then
        (None, ''Invalid CyberPower Serial Number format (must be 12 or 16 alphanumeric characters).'')
      else
        let prefix3 = upper (take 3 serial_number);
            prefix2 = upper (take 2 serial_number) in
        case cyberpower_prefix_to_model prefix3 of
          Some model \<Rightarrow> (Some model, inferred_from_prefix prefix3)
        | None \<Rightarrow>
            (case cyberpower_prefix_to_model prefix2 of
               Some model \<Rightarrow> (Some model, inferred_from_prefix prefix2)
             | None \<Rightarrow> (None, ''Could not infer CyberPower model from serial number prefix.'')))"

definition juniper_prefix_to_model :: "string \<rightharpoonup> string" where
  "juniper_prefix_to_model = map_of
     [(''AA'', ''EX4100-24P''),
      (''AB'', ''EX4100-48P''),
      (''AC'', ''EX4100-24T''),
      (''AD'', ''EX4100-48T''),
      (''BA'', ''EX4300-24P''),
      (''BB'', ''EX4300-48P''),
      (''CA'', ''EX2300-24P''),
      (''CB'', ''EX2300-48P'')]"

definition get_juniper_model_name :: "string \<Rightarrow> result" where
  "get_juniper_model_name serial_number =
     (if \<not> re_match JUNIPER_SERIAL_REGEX serial_number then
        (None, ''Invalid Juniper Serial Number format (must be 12 alphanumeric characters).'')
      else
        let prefix = upper (take 2 serial_number) in
        case juniper_prefix_to_model prefix of
          Some model \<Rightarrow> (Some model, inferred_from_prefix prefix)
        | None \<Rightarrow> (None, ''Could not infer Juniper model from serial number prefix.''))"

section \<open>Fetched pages and the network\<close>

text \<open>
  A parsed page (\<open>BeautifulSoup(response.content, 'html.parser')\<close>) is the list of its
  elements in document order, each with its tag name, the tokens of its \<open>class\<close>
  attribute, its \<open>id\<close> attribute and its \<open>.text\<close>. \<open>soup.find\<close> returns the first
  element that fits, or \<open>None\<close>; an element found is always true in a condition.
\<close>

record element =
  elem_tag :: string
  elem_classes :: "string list"
  elem_id :: "string option"
  elem_text :: string

type_synonym soup = "element list"

text \<open>\<open>soup.find(name, class_=c)\<close>\<close>

definition find_class :: "soup \<Rightarrow> string \<Rightarrow> string \<Rightarrow> element option" where
  "find_class soup name c = List.find (\<lambda>e. elem_tag e = name \<and> c \<in> set (elem_classes e)) soup"

text \<open>\<open>soup.find(name, id=i)\<close>\<close>

definition find_id :: "soup \<Rightarrow> string \<Rightarrow> string \<Rightarrow> element option" where
  "find_id soup name i = List.find (\<lambda>e. elem_tag e = name \<and> elem_id e = Some i) soup"

text \<open>\<open>soup.find(name)\<close>\<close>

definition find_tag :: "soup \<Rightarrow> string \<Rightarrow> element option" where
  "find_tag soup name = List.find (\<lambda>e. elem_tag e = name) soup"

text \<open>\<open>a or b\<close> on two \<open>find\<close> results, and \<open>if not a: a = b\<close>.\<close>

fun or_else :: "element option \<Rightarrow> element option \<Rightarrow> element option" where
  "or_else (Some e) b = Some e"
| "or_else None b = b"

text \<open>
  The exceptions of \<open>requests.exceptions\<close> that one \<open>requests.get\<close> followed by
  \<open>raise_for_status\<close> raises, each with its \<open>str(e)\<close>. \<open>HTTPError\<close> comes from
  \<open>raise_for_status\<close> and carries the response's \<open>status_code\<close>; \<open>ConnectTimeout\<close> is a
  subclass of both \<open>ConnectionError\<close> and \<open>Timeout\<close>, \<open>ReadTimeout\<close> of \<open>Timeout\<close>
  only; all are subclasses of \<open>RequestException\<close>.
\<close>

datatype request_exception =
    HTTPError nat string
  | ConnectionError string
  | ConnectTimeout string
  | ReadTimeout string
  | OtherRequestException string

fun exc_str :: "request_exception \<Rightarrow> string" where
  "exc_str (HTTPError status_code m) = m"
| "exc_str (ConnectionError m) = m"
| "exc_str (ConnectTimeout m) = m"
| "exc_str (ReadTimeout m) = m"
| "exc_str (OtherRequestException m) = m"

datatype fetch = Page soup | Raised request_exception

text \<open>The network: what a GET of a URL gives. A resolver returns its result and the URLs it requested.\<close>

type_synonym network = "string \<Rightarrow> fetch"

section \<open>The title patterns\<close>

text \<open>
  \<open>re.search(pattern, s)\<close> tries the pattern at every position from the left; the
  matcher \<open>m\<close> gives group 1 of a match that starts at the beginning of its argument.
\<close>

fun re_search :: "(string \<Rightarrow> string option) \<Rightarrow> string \<Rightarrow> string option" where
  "re_search m [] = m []"
| "re_search m (c # cs) = (case m (c # cs) of Some g \<Rightarrow> Some g | None \<Rightarrow> re_search m cs)"

text \<open>\<open>(.+?)\<close> followed by \<open>k\<close>: the shortest non-empty run of characters other than newline after which \<open>k\<close> matches.\<close>

fun lazy_dots :: "(string \<Rightarrow> bool) \<Rightarrow> string \<Rightarrow> string option" where
  "lazy_dots k [] = None"
| "lazy_dots k (c # cs) =
     (if c = newline then None
      else if k cs then Some [c]
      else map_option ((#) c) (lazy_dots k cs))"

text \<open>\<open>([A-Z0-9]+)\<close> followed by \<open>k\<close>: the longest non-empty run of the class after which \<open>k\<close> matches.\<close>

fun greedy_class :: "(char \<Rightarrow> bool) \<Rightarrow> (string \<Rightarrow> bool) \<Rightarrow> string \<Rightarrow> string option" where
  "greedy_class P k [] = None"
| "greedy_class P k (c # cs) =
     (if P c then
        (case greedy_class P k cs of
           Some g \<Rightarrow> Some (c # g)
         | None \<Rightarrow> if k cs then Some [c] else None)
      else None)"

text \<open>\<open>\s+\<close> followed by \<open>k\<close>, longest run first.\<close>

fun spaces_then :: "(string \<Rightarrow> 'a option) \<Rightarrow> string \<Rightarrow> 'a option" where
  "spaces_then k [] = None"
| "spaces_then k (c # cs) =
     (if is_space c then
        (case spaces_then k cs of Some g \<Rightarrow> Some g | None \<Rightarrow> k cs)
      else None)"

text \<open>A literal followed by \<open>k\<close>.\<close>

definition literal :: "string \<Rightarrow> (string \<Rightarrow> 'a option) \<Rightarrow> string \<Rightarrow> 'a option" where
  "literal p k s = (if startswith s p then k (drop (length p) s) else None)"

definition accept :: "string \<Rightarrow> unit option" where
  "accept s = Some ()"

definition matches :: "(string \<Rightarrow> unit option) \<Rightarrow> string \<Rightarrow> bool" where
  "matches k s = (k s \<noteq> None)"

text \<open>\<open>Support for (.+?) \| Dell US\<close>\<close>

definition dell_title_pattern :: "string \<Rightarrow> string option" where
  "dell_title_pattern =
     literal ''Support for '' (lazy_dots (matches (literal '' | Dell US'' accept)))"

text \<open>\<open>(.+?)\s+\|\s+HP Product Information\<close>\<close>

definition hp_title_pattern :: "string \<Rightarrow> string option" where
  "hp_title_pattern =
     lazy_dots (matches (spaces_then (literal ''|''
       (spaces_then (literal ''HP Product Information'' accept)))))"

text \<open>\<open>ViewSonic\s+([A-Z0-9]+)\s+Product\<close>\<close>

definition viewsonic_title_pattern :: "string \<Rightarrow> string option" where
  "viewsonic_title_pattern =
     literal ''ViewSonic'' (spaces_then
       (greedy_class (in_class UpperAlnum) (matches (spaces_then (literal ''Product'' accept)))))"

text \<open>
  \<open>re.sub('^' + p + '\s+', '', s, flags=re.IGNORECASE)\<close> for a literal \<open>p\<close>: a leading
  \<open>p\<close>, in any letter case, and the whitespace after it are removed when at least one
  whitespace character follows \<open>p\<close>.
\<close>

definition remove_prefix_ci :: "string \<Rightarrow> string \<Rightarrow> string" where
  "remove_prefix_ci p s =
     (if map lower_char (take (length p) s) = map lower_char p
         \<and> list_ex is_space (take 1 (drop (length p) s))
      then dropWhile is_space (drop (length p) s)
      else s)"

text \<open>The title fallback shared by Dell, HP and ViewSonic: \<open>soup.find('title')\<close>, the
  substring test on its text, the search, and the test that the stripped group is not empty.\<close>

definition title_fallback :: "soup \<Rightarrow> string \<Rightarrow> (string \<Rightarrow> string option) \<Rightarrow> string option" where
  "title_fallback soup marker pattern =
     (case find_tag soup ''title'' of
        None \<Rightarrow> None
      | Some title_tag \<Rightarrow>
          if contains marker (elem_text title_tag) then
            (case re_search pattern (elem_text title_tag) of
               None \<Rightarrow> None
             | Some g \<Rightarrow> if strip g \<noteq> [] then Some (strip g) else None)
          else None)"

section \<open>Scrape resolvers\<close>

text \<open>
  Dell, HP and ViewSonic share one \<open>try\<close> block and one chain of handlers, tried in
  the order \<open>HTTPError\<close>, \<open>ConnectionError\<close>, \<open>Timeout\<close>, \<open>RequestException\<close>;
  only the message for status 404 differs.
\<close>

fun request_failed :: "string \<Rightarrow> request_exception \<Rightarrow> result" where
  "request_failed not_found (HTTPError status_code errh) =
     (if status_code = 404 then (None, not_found) else (None, ''HTTP Error: '' @ errh))"
| "request_failed not_found (ConnectionError errc) = (None, ''Error Connecting: '' @ errc)"
| "request_failed not_found (ConnectTimeout errc) = (None, ''Error Connecting: '' @ errc)"
| "request_failed not_found (ReadTimeout errt) = (None, ''Timeout Error: '' @ errt)"
| "request_failed not_found (OtherRequestException err) =
     (None, ''An unexpected error occurred: '' @ err)"

definition lenovo_url :: "string \<Rightarrow> string" where
  "lenovo_url serial_number =
     ''https://pcsupport.lenovo.com/us/en/warranty-lookup?key='' @ serial_number"

definition acer_url :: "string \<Rightarrow> string" where
  "acer_url serial_number =
     ''https://www.acer.com/us-en/support/product-support/serial-number-lookup?sn=''
       @ serial_number"

definition viewsonic_url :: "string \<Rightarrow> string" where
  "viewsonic_url serial_number =
     ''https://www.viewsonic.com/us/viewsonic-warranty-lookup?serial_number='' @ serial_number"

definition hp_url :: "string \<Rightarrow> string" where
  "hp_url serial_number = ''https://support.hp.com/us-en/product/lookup/'' @ serial_number"

definition dell_url :: "string \<Rightarrow> string" where
  "dell_url service_tag =
     ''https://www.dell.com/support/home/en-us/product-support/servicetag/''
       @ service_tag @ ''/overview''"

definition get_lenovo_model_name :: "network \<Rightarrow> string \<Rightarrow> result \<times> string list" where
  "get_lenovo_model_name net serial_number =
     (if \<not> re_match LENOVO_SERIAL_REGEX serial_number then
        ((None, ''Invalid Lenovo Serial Number format (must be 8-12 alphanumeric characters).''), [])
      else
        let url = lenovo_url serial_number;
            not_found = (None, ''Model name element not found on Lenovo support page.'') in
        (case net url of
           Page soup \<Rightarrow>
             (case or_else (find_class soup ''span'' ''product-name'')
                           (find_class soup ''h2'' ''product-name'') of
                Some model_element \<Rightarrow>
                  let model_name = strip (elem_text model_element) in
                  if model_name \<noteq> [] then (Some model_name, ''Model found via web scraping.'')
                  else not_found
              | None \<Rightarrow> not_found)
         | Raised e \<Rightarrow> (None, ''Request failed (Web scraping failed): '' @ exc_str e),
         [url]))"

definition get_acer_model_name :: "network \<Rightarrow> string \<Rightarrow> result \<times> string list" where
  "get_acer_model_name net serial_number =
     (if \<not> re_match ACER_SERIAL_REGEX serial_number then
        ((None, ''Invalid Acer Serial Number/SNID format (must be 22 alphanumeric or 11/12 digit SNID).''), [])
      else
        let url = acer_url serial_number;
            not_found =
              (if length serial_number = 22 then
                 (Some (''Acer Product (Serial: '' @ take 5 serial_number @ ''...)''),
                  ''Model inferred from serial number prefix. Please verify.'')
               else (None, ''Model name element not found on Acer support page.'')) in
        (case net url of
           Page soup \<Rightarrow>
             (case or_else (find_class soup ''h1'' ''product-name'')
                           (find_class soup ''h2'' ''product-name'') of
                Some model_element \<Rightarrow>
                  let model_name = strip (elem_text model_element) in
                  if model_name \<noteq> [] then (Some model_name, ''Model found via web scraping.'')
                  else not_found
              | None \<Rightarrow> not_found)
         | Raised e \<Rightarrow>
             if length serial_number = 22 then
               (Some (''Acer Product (Serial: '' @ take 5 serial_number @ ''...)''),
                ''Model inferred from serial number prefix (Web scraping failed). Please verify.'')
             else if length serial_number \<ge> 11 \<and> isdigit serial_number then
               (Some (''Acer Product (SNID: '' @ serial_number @ '')''),
                ''Model inferred from SNID (Web scraping failed). Please verify.'')
             else (None, ''Request failed: '' @ exc_str e),
         [url]))"

definition get_viewsonic_model_name :: "network \<Rightarrow> string \<Rightarrow> result \<times> string list" where
  "get_viewsonic_model_name net serial_number =
     (if \<not> re_match VIEWSONIC_SERIAL_REGEX serial_number then
        ((None, ''Invalid ViewSonic Serial Number format.''), [])
      else
        let url = viewsonic_url serial_number in
        (case net url of
           Raised e \<Rightarrow>
             request_failed
               ''Serial Number found, but product page not found (404). It might be too old or invalid.'' e
         | Page soup \<Rightarrow>
             (case or_else (find_class soup ''h1'' ''product-name'')
                           (find_class soup ''span'' ''model-name'') of
                Some product_name_element \<Rightarrow>
                  (Some (strip (elem_text product_name_element)), ''Model name scraped successfully.'')
              | None \<Rightarrow>
                  (case title_fallback soup ''ViewSonic'' viewsonic_title_pattern of
                     Some model_name \<Rightarrow>
                       (Some model_name, ''Model name scraped from page title (fallback).'')
                   | None \<Rightarrow> (None, ''Could not find the product model name on the page.''))),
         [url]))"

definition get_hp_model_name :: "network \<Rightarrow> string \<Rightarrow> result \<times> string list" where
  "get_hp_model_name net serial_number =
     (if \<not> re_match HP_SERIAL_REGEX serial_number then
        ((None, ''Invalid HP Serial Number format.''), [])
      else
        let url = hp_url serial_number in
        (case net url of
           Raised e \<Rightarrow>
             request_failed
               ''Serial Number found, but product page not found (404). It might be too old or invalid.'' e
         | Page soup \<Rightarrow>
             (case or_else (find_class soup ''h1'' ''product-title'')
                           (find_class soup ''span'' ''product-name'') of
                Some product_name_element \<Rightarrow>
                  (Some (strip (remove_prefix_ci ''HP'' (strip (elem_text product_name_element)))),
                   ''Model name scraped successfully.'')
              | None \<Rightarrow>
                  (case title_fallback soup ''HP Product Information'' hp_title_pattern of
                     Some model_name \<Rightarrow>
                       (Some model_name, ''Model name scraped from page title (fallback).'')
                   | None \<Rightarrow> (None, ''Could not find the product model name on the page.''))),
         [url]))"

text \<open>
  Dell looks at the title only when neither element was found, and returns from there
  when the title gives a name; the elements are read afterwards.
\<close>

definition get_dell_model_name :: "network \<Rightarrow> string \<Rightarrow> result \<times> string list" where
  "get_dell_model_name net service_tag =
     (if \<not> re_match SERVICE_TAG_REGEX service_tag then
        ((None, ''Invalid Dell Service Tag format.''), [])
      else
        let url = dell_url service_tag in
        (case net url of
           Raised e \<Rightarrow>
             request_failed
               ''Service Tag found, but product page not found (404). It might be too old or invalid.'' e
         | Page soup \<Rightarrow>
             (case or_else (find_class soup ''h1'' ''product-name'')
                           (find_id soup ''span'' ''modelName'') of
                None \<Rightarrow>
                  (case title_fallback soup ''Support for'' dell_title_pattern of
                     Some model_name \<Rightarrow>
                       (Some model_name, ''Model name scraped from page title (fallback).'')
                   | None \<Rightarrow> (None, ''Could not find the product model name on the page.''))
              | Some product_name_element \<Rightarrow>
                  (Some (strip (remove_prefix_ci ''Support for''
                           (strip (elem_text product_name_element)))),
                   ''Model name scraped successfully.'')),
         [url]))"

section \<open>The routes\<close>

text \<open>
  A route's answer is the JSON object it returns, as the list of its keys and values, and
  the HTTP status. The fifteen routes of the source have the same body and differ in the
  regex, the resolver, the key that carries the identifier and two messages; the login
  gate that one of the three files puts before them is not modelled.
\<close>

datatype json = JBool bool | JStr string

type_synonym response = "(string \<times> json) list \<times> nat"

definition lookup :: "regex \<Rightarrow> string \<Rightarrow> string \<Rightarrow> string \<Rightarrow> (string \<Rightarrow> result \<times> string list)
    \<Rightarrow> string \<Rightarrow> response \<times> string list" where
  "lookup rx key missing invalid resolver raw =
     (let serial_number = upper raw in
      if serial_number = [] then (([(''error'', JStr missing)], 400), [])
      else if \<not> re_match rx serial_number then (([(''error'', JStr invalid)], 400), [])
      else
        (case resolver serial_number of
           ((model_name, message), requests) \<Rightarrow>
             (case model_name of
                Some m \<Rightarrow>
                  if m \<noteq> [] then
                    (([(''success'', JBool True), (key, JStr serial_number),
                       (''model_name'', JStr m), (''message'', JStr message)], 200), requests)
                  else
                    (([(''success'', JBool False), (key, JStr serial_number),
                       (''error'', JStr message)], 404), requests)
              | None \<Rightarrow>
                  (([(''success'', JBool False), (key, JStr serial_number),
                     (''error'', JStr message)], 404), requests))))"

text \<open>A resolver that makes no request.\<close>

definition offline :: "(string \<Rightarrow> result) \<Rightarrow> string \<Rightarrow> result \<times> string list" where
  "offline resolver serial_number = (resolver serial_number, [])"

definition lookup_dell_service_tag :: "network \<Rightarrow> string \<Rightarrow> response \<times> string list" where
  "lookup_dell_service_tag net =
     lookup SERVICE_TAG_REGEX ''service_tag'' ''Missing service tag parameter.''
       ''Invalid Dell Service Tag format (must be 7 alphanumeric characters).''
       (get_dell_model_name net)"

definition lookup_tcl_serial_number :: "network \<Rightarrow> string \<Rightarrow> response \<times> string list" where
  "lookup_tcl_serial_number net =
     lookup TCL_SERIAL_REGEX ''serial_number'' ''Missing serial number parameter.''
       ''Invalid TCL Serial Number format.'' (offline get_tcl_model_name)"

definition lookup_vizio_serial_number :: "network \<Rightarrow> string \<Rightarrow> response \<times> string list" where
  "lookup_vizio_serial_number net =
     lookup VIZIO_SERIAL_REGEX ''serial_number'' ''Missing serial number parameter.''
       ''Invalid Vizio Serial Number format.'' (offline get_vizio_model_name)"

definition lookup_samsung_serial_number :: "network \<Rightarrow> string \<Rightarrow> response \<times> string list" where
  "lookup_samsung_serial_number net =
     lookup SAMSUNG_SERIAL_REGEX ''serial_number'' ''Missing serial number parameter.''
       ''Invalid Samsung Serial Number format.'' (offline get_samsung_model_name)"

definition lookup_microsoft_serial_number :: "network \<Rightarrow> string \<Rightarrow> response \<times> string list" where
  "lookup_microsoft_serial_number net =
     lookup MICROSOFT_SERIAL_REGEX ''serial_number'' ''Missing serial number parameter.''
       ''Invalid Microsoft Serial Number format.'' (offline get_microsoft_model_name)"

definition lookup_apc_serial_number :: "network \<Rightarrow> string \<Rightarrow> response \<times> string list" where
  "lookup_apc_serial_number net =
     lookup APC_SERIAL_REGEX ''serial_number'' ''Missing serial number parameter.''
       ''Invalid APC Serial Number format.'' (offline get_apc_model_name)"

definition lookup_cisco_serial_number :: "network \<Rightarrow> string \<Rightarrow> response \<times> string list" where
  "lookup_cisco_serial_number net =
     lookup CISCO_SERIAL_REGEX ''serial_number'' ''Missing serial number parameter.''
       ''Invalid Cisco Serial Number format.'' (offline get_cisco_model_name)"

definition lookup_lenovo_serial_number :: "network \<Rightarrow> string \<Rightarrow> response \<times> string list" where
  "lookup_lenovo_serial_number net =
     lookup LENOVO_SERIAL_REGEX ''serial_number'' ''Missing serial number parameter.''
       ''Invalid Lenovo Serial Number format.'' (get_lenovo_model_name net)"

definition lookup_acer_serial_number :: "network \<Rightarrow> string \<Rightarrow> response \<times> string list" where
  "lookup_acer_serial_number net =
     lookup ACER_SERIAL_REGEX ''serial_number'' ''Missing serial number parameter.''
       ''Invalid Acer Serial Number/SNID format.'' (get_acer_model_name net)"

definition lookup_apple_serial_number :: "network \<Rightarrow> string \<Rightarrow> response \<times> string list" where
  "lookup_apple_serial_number net =
     lookup APPLE_SERIAL_REGEX ''serial_number'' ''Missing serial number parameter.''
       ''Invalid Apple Serial Number format (must be 12 or 17 alphanumeric characters).''
       (offline get_apple_model_name)"

definition lookup_brother_serial_number :: "network \<Rightarrow> string \<Rightarrow> response \<times> string list" where
  "lookup_brother_serial_number net =
     lookup BROTHER_SERIAL_REGEX ''serial_number'' ''Missing serial number parameter.''
       ''Invalid Brother Serial Number format (must be 15 alphanumeric characters).''
       (offline get_brother_model_name)"

definition lookup_cyberpower_serial_number :: "network \<Rightarrow> string \<Rightarrow> response \<times> string list" where
  "lookup_cyberpower_serial_number net =
     lookup CYBERPOWER_SERIAL_REGEX ''serial_number'' ''Missing serial number parameter.''
       ''Invalid CyberPower Serial Number format (must be 12 or 16 alphanumeric characters).''
       (offline get_cyberpower_model_name)"

definition lookup_juniper_serial_number :: "network \<Rightarrow> string \<Rightarrow> response \<times> string list" where
  "lookup_juniper_serial_number net =
     lookup JUNIPER_SERIAL_REGEX ''serial_number'' ''Missing serial number parameter.''
       ''Invalid Juniper Serial Number format (must be 12 alphanumeric characters).''
       (offline get_juniper_model_name)"

definition lookup_viewsonic_serial_number :: "network \<Rightarrow> string \<Rightarrow> response \<times> string list" where
  "lookup_viewsonic_serial_number net =
     lookup VIEWSONIC_SERIAL_REGEX ''serial_number'' ''Missing serial number parameter.''
       ''Invalid ViewSonic Serial Number format (must be 10-12 alphanumeric characters).''
       (get_viewsonic_model_name net)"

definition lookup_hp_serial_number :: "network \<Rightarrow> string \<Rightarrow> response \<times> string list" where
  "lookup_hp_serial_number net =
     lookup HP_SERIAL_REGEX ''serial_number'' ''Missing serial number parameter.''
       ''Invalid HP Serial Number format (must be 10-12 alphanumeric characters).''
       (get_hp_model_name net)"

section \<open>The dispatcher and its outcome\<close>

datatype vendor =
    Dell | HP | Lenovo | Apple | Cisco | Juniper | APC | CyberPower | Brother | Acer
  | Samsung | Microsoft | Vizio | TCL | ViewSonic

text \<open>\<open>resolve\<close> is the routing of \<open>/lookup/<vendor>\<close> to its handler.\<close>

fun resolve :: "vendor \<Rightarrow> network \<Rightarrow> string \<Rightarrow> response \<times> string list" where
  "resolve Dell = lookup_dell_service_tag"
| "resolve HP = lookup_hp_serial_number"
| "resolve Lenovo = lookup_lenovo_serial_number"
| "resolve Apple = lookup_apple_serial_number"
| "resolve Cisco = lookup_cisco_serial_number"
| "resolve Juniper = lookup_juniper_serial_number"
| "resolve APC = lookup_apc_serial_number"
| "resolve CyberPower = lookup_cyberpower_serial_number"
| "resolve Brother = lookup_brother_serial_number"
| "resolve Acer = lookup_acer_serial_number"
| "resolve Samsung = lookup_samsung_serial_number"
| "resolve Microsoft = lookup_microsoft_serial_number"
| "resolve Vizio = lookup_vizio_serial_number"
| "resolve TCL = lookup_tcl_serial_number"
| "resolve ViewSonic = lookup_viewsonic_serial_number"

text \<open>The regex a vendor's route and resolver both test, and the resolver itself.\<close>

fun format_rule :: "vendor \<Rightarrow> regex" where
  "format_rule Dell = SERVICE_TAG_REGEX"
| "format_rule HP = HP_SERIAL_REGEX"
| "format_rule Lenovo = LENOVO_SERIAL_REGEX"
| "format_rule Apple = APPLE_SERIAL_REGEX"
| "format_rule Cisco = CISCO_SERIAL_REGEX"
| "format_rule Juniper = JUNIPER_SERIAL_REGEX"
| "format_rule APC = APC_SERIAL_REGEX"
| "format_rule CyberPower = CYBERPOWER_SERIAL_REGEX"
| "format_rule Brother = BROTHER_SERIAL_REGEX"
| "format_rule Acer = ACER_SERIAL_REGEX"
| "format_rule Samsung = SAMSUNG_SERIAL_REGEX"
| "format_rule Microsoft = MICROSOFT_SERIAL_REGEX"
| "format_rule Vizio = VIZIO_SERIAL_REGEX"
| "format_rule TCL = TCL_SERIAL_REGEX"
| "format_rule ViewSonic = VIEWSONIC_SERIAL_REGEX"

definition validate :: "vendor \<Rightarrow> string \<Rightarrow> bool" where
  "validate v s = re_match (format_rule v) s"

fun resolver :: "vendor \<Rightarrow> network \<Rightarrow> string \<Rightarrow> result \<times> string list" where
  "resolver Dell net = get_dell_model_name net"
| "resolver HP net = get_hp_model_name net"
| "resolver Lenovo net = get_lenovo_model_name net"
| "resolver Apple net = offline get_apple_model_name"
| "resolver Cisco net = offline get_cisco_model_name"
| "resolver Juniper net = offline get_juniper_model_name"
| "resolver APC net = offline get_apc_model_name"
| "resolver CyberPower net = offline get_cyberpower_model_name"
| "resolver Brother net = offline get_brother_model_name"
| "resolver Acer net = get_acer_model_name net"
| "resolver Samsung net = offline get_samsung_model_name"
| "resolver Microsoft net = offline get_microsoft_model_name"
| "resolver Vizio net = offline get_vizio_model_name"
| "resolver TCL net = offline get_tcl_model_name"
| "resolver ViewSonic net = get_viewsonic_model_name net"

text \<open>What differs between the routes besides the regex and the resolver: the key that
  carries the identifier and the two messages of the route's own rejections.\<close>

fun id_key :: "vendor \<Rightarrow> string" where
  "id_key Dell = ''service_tag''"
| "id_key v = ''serial_number''"

fun missing_message :: "vendor \<Rightarrow> string" where
  "missing_message Dell = ''Missing service tag parameter.''"
| "missing_message v = ''Missing serial number parameter.''"

fun route_invalid_message :: "vendor \<Rightarrow> string" where
  "route_invalid_message Dell = ''Invalid Dell Service Tag format (must be 7 alphanumeric characters).''"
| "route_invalid_message HP = ''Invalid HP Serial Number format (must be 10-12 alphanumeric characters).''"
| "route_invalid_message Lenovo = ''Invalid Lenovo Serial Number format.''"
| "route_invalid_message Apple = ''Invalid Apple Serial Number format (must be 12 or 17 alphanumeric characters).''"
| "route_invalid_message Cisco = ''Invalid Cisco Serial Number format.''"
| "route_invalid_message Juniper = ''Invalid Juniper Serial Number format (must be 12 alphanumeric characters).''"
| "route_invalid_message APC = ''Invalid APC Serial Number format.''"
| "route_invalid_message CyberPower = ''Invalid CyberPower Serial Number format (must be 12 or 16 alphanumeric characters).''"
| "route_invalid_message Brother = ''Invalid Brother Serial Number format (must be 15 alphanumeric characters).''"
| "route_invalid_message Acer = ''Invalid Acer Serial Number/SNID format.''"
| "route_invalid_message Samsung = ''Invalid Samsung Serial Number format.''"
| "route_invalid_message Microsoft = ''Invalid Microsoft Serial Number format.''"
| "route_invalid_message Vizio = ''Invalid Vizio Serial Number format.''"
| "route_invalid_message TCL = ''Invalid TCL Serial Number format.''"
| "route_invalid_message ViewSonic = ''Invalid ViewSonic Serial Number format (must be 10-12 alphanumeric characters).''"

text \<open>The message a resolver returns, with \<open>None\<close>, from its own format check.\<close>

fun resolver_invalid_message :: "vendor \<Rightarrow> string" where
  "resolver_invalid_message Dell = ''Invalid Dell Service Tag format.''"
| "resolver_invalid_message HP = ''Invalid HP Serial Number format.''"
| "resolver_invalid_message Lenovo = ''Invalid Lenovo Serial Number format (must be 8-12 alphanumeric characters).''"
| "resolver_invalid_message Apple = ''Invalid Apple Serial Number format (must be 12 or 17 alphanumeric characters).''"
| "resolver_invalid_message Cisco = ''Invalid Cisco Serial Number format (must be 11 characters: LLLYYWWXXXX).''"
| "resolver_invalid_message Juniper = ''Invalid Juniper Serial Number format (must be 12 alphanumeric characters).''"
| "resolver_invalid_message APC = ''Invalid APC Serial Number format (must be 12 alphanumeric characters).''"
| "resolver_invalid_message CyberPower = ''Invalid CyberPower Serial Number format (must be 12 or 16 alphanumeric characters).''"
| "resolver_invalid_message Brother = ''Invalid Brother Serial Number format (must be 15 alphanumeric characters).''"
| "resolver_invalid_message Acer = ''Invalid Acer Serial Number/SNID format (must be 22 alphanumeric or 11/12 digit SNID).''"
| "resolver_invalid_message Samsung = ''Invalid Samsung Serial Number format (must be 11 or 15 alphanumeric characters).''"
| "resolver_invalid_message Microsoft = ''Invalid Microsoft Serial Number format (must be 12 or 16 digits/letters).''"
| "resolver_invalid_message Vizio = ''Invalid Vizio Serial Number format (must be 14 alphanumeric characters).''"
| "resolver_invalid_message TCL = ''Invalid TCL Serial Number format (must be 12-14 alphanumeric characters).''"
| "resolver_invalid_message ViewSonic = ''Invalid ViewSonic Serial Number format.''"

text \<open>
  The \<open>ResolutionOutcome\<close> of the specification, read off a route's JSON object:
  \<open>matched\<close> is its \<open>success\<close>, \<open>model_name\<close> its \<open>model_name\<close> when it has one,
  \<open>diagnostic\<close> its \<open>message\<close> or else its \<open>error\<close>.
\<close>

record ResolutionOutcome =
  model_name :: "string option"
  diagnostic :: string
  matched :: bool

fun json_str :: "json option \<Rightarrow> string option" where
  "json_str (Some (JStr s)) = Some s"
| "json_str (Some (JBool b)) = None"
| "json_str None = None"

definition outcome :: "response \<times> string list \<Rightarrow> ResolutionOutcome" where
  "outcome r =
     \<lparr> model_name = json_str (map_of (fst (fst r)) ''model_name''),
       diagnostic =
         (case json_str (map_of (fst (fst r)) ''message'') of
            Some m \<Rightarrow> m
          | None \<Rightarrow>
              (case json_str (map_of (fst (fst r)) ''error'') of Some e \<Rightarrow> e | None \<Rightarrow> [])),
       matched = (map_of (fst (fst r)) ''success'' = Some (JBool True)) \<rparr>"

text \<open>The HTTP status of an answer, and the requests made for it.\<close>

definition status :: "response \<times> string list \<Rightarrow> nat" where
  "status r = snd (fst r)"

definition requests_made :: "response \<times> string list \<Rightarrow> string list" where
  "requests_made r = snd r"

section \<open>The documented format rules\<close>

text \<open>
  The rule table of the specification, in its words: a length or a range of lengths, and
  the characters allowed. It is stated apart from the regexes, to be compared with them.
\<close>

definition alphanumeric :: "char \<Rightarrow> bool" where
  "alphanumeric c = (is_lower c \<or> is_upper c \<or> is_digit c)"

definition uppercase_alphanumeric :: "char \<Rightarrow> bool" where
  "uppercase_alphanumeric c = (is_upper c \<or> is_digit c)"

fun documented_rule :: "vendor \<Rightarrow> string \<Rightarrow> bool" where
  "documented_rule Dell s = (length s = 7 \<and> list_all alphanumeric s)"
| "documented_rule HP s = (10 \<le> length s \<and> length s \<le> 12 \<and> list_all alphanumeric s)"
| "documented_rule ViewSonic s = (10 \<le> length s \<and> length s \<le> 12 \<and> list_all alphanumeric s)"
| "documented_rule Juniper s = (length s = 12 \<and> list_all alphanumeric s)"
| "documented_rule CyberPower s = ((length s = 12 \<or> length s = 16) \<and> list_all alphanumeric s)"
| "documented_rule Brother s = (length s = 15 \<and> list_all alphanumeric s)"
| "documented_rule Apple s = ((length s = 12 \<or> length s = 17) \<and> list_all alphanumeric s)"
| "documented_rule Acer s =
     ((length s = 22 \<and> list_all alphanumeric s)
      \<or> (11 \<le> length s \<and> length s \<le> 12 \<and> list_all is_digit s))"
| "documented_rule Lenovo s = (8 \<le> length s \<and> length s \<le> 12 \<and> list_all alphanumeric s)"
| "documented_rule Cisco s =
     (length s = 11 \<and> list_all is_upper (take 3 s) \<and> list_all is_digit (drop 3 s))"
| "documented_rule APC s = (length s = 12 \<and> list_all uppercase_alphanumeric s)"
| "documented_rule Microsoft s =
     ((length s = 12 \<and> list_all is_digit s) \<or> (length s = 16 \<and> list_all is_digit s)
      \<or> (length s = 12 \<and> list_all uppercase_alphanumeric s))"
| "documented_rule Samsung s =
     ((length s = 11 \<or> length s = 15) \<and> list_all uppercase_alphanumeric s)"
| "documented_rule Vizio s = (length s = 14 \<and> list_all uppercase_alphanumeric s)"
| "documented_rule TCL s = (12 \<le> length s \<and> length s \<le> 14 \<and> list_all uppercase_alphanumeric s)"


section \<open>The extraction stages of the scrape resolvers\<close>









section \<open>The routes, by the ways through their body\<close>

lemmas route_defs =
  lookup_dell_service_tag_def lookup_tcl_serial_number_def lookup_vizio_serial_number_def
  lookup_samsung_serial_number_def lookup_microsoft_serial_number_def lookup_apc_serial_number_def
  lookup_cisco_serial_number_def lookup_lenovo_serial_number_def lookup_acer_serial_number_def
  lookup_apple_serial_number_def lookup_brother_serial_number_def lookup_cyberpower_serial_number_def
  lookup_juniper_serial_number_def lookup_viewsonic_serial_number_def lookup_hp_serial_number_def

lemma upper_Nil: "upper [] = []"
  by (simp add: upper_def)

lemma upper_eq_Nil: "(upper s = []) = (s = [])"
  by (simp add: upper_def)

text \<open>Every route is the shared body, on the vendor's regex and resolver.\<close>

lemma resolve_lookup:
  "resolve v net =
     lookup (format_rule v) (id_key v) (missing_message v) (route_invalid_message v) (resolver v net)"
  by (cases v) (simp_all add: route_defs)

lemma id_key_cases: "id_key v = ''service_tag'' \<or> id_key v = ''serial_number''"
  by (cases v) simp_all

lemma lookup_missing:
  "upper raw = [] \<Longrightarrow>
   lookup rx key missing invalid r raw = (([(''error'', JStr missing)], 400), [])"
  by (simp add: lookup_def)

lemma lookup_invalid:
  "upper raw \<noteq> [] \<Longrightarrow> \<not> re_match rx (upper raw) \<Longrightarrow>
   lookup rx key missing invalid r raw = (([(''error'', JStr invalid)], 400), [])"
  by (simp add: lookup_def)

lemma lookup_found:
  "upper raw \<noteq> [] \<Longrightarrow> re_match rx (upper raw) \<Longrightarrow> r (upper raw) = ((Some m, msg), log) \<Longrightarrow>
   m \<noteq> [] \<Longrightarrow>
   lookup rx key missing invalid r raw =
     (([(''success'', JBool True), (key, JStr (upper raw)), (''model_name'', JStr m),
        (''message'', JStr msg)], 200), log)"
  by (simp add: lookup_def)

lemma lookup_not_found:
  "upper raw \<noteq> [] \<Longrightarrow> re_match rx (upper raw) \<Longrightarrow> r (upper raw) = ((mn, msg), log) \<Longrightarrow>
   \<not> truthy mn \<Longrightarrow>
   lookup rx key missing invalid r raw =
     (([(''success'', JBool False), (key, JStr (upper raw)), (''error'', JStr msg)], 404), log)"
  by (cases mn) (simp_all add: lookup_def)

lemma outcome_400:
  "outcome (([(''error'', JStr e)], 400), log) = \<lparr>model_name = None, diagnostic = e, matched = False\<rparr>"
  by (simp add: outcome_def)

lemma outcome_200:
  "key = ''service_tag'' \<or> key = ''serial_number'' \<Longrightarrow>
   outcome (([(''success'', JBool True), (key, JStr s), (''model_name'', JStr m),
        (''message'', JStr msg)], 200), log) = \<lparr>model_name = Some m, diagnostic = msg, matched = True\<rparr>"
  by (auto simp add: outcome_def)

lemma outcome_404:
  "key = ''service_tag'' \<or> key = ''serial_number'' \<Longrightarrow>
   outcome (([(''success'', JBool False), (key, JStr s), (''error'', JStr msg)], 404), log)
     = \<lparr>model_name = None, diagnostic = msg, matched = False\<rparr>"
  by (auto simp add: outcome_def)

text \<open>The outcome of a route, by the three ways through its body.\<close>

lemma outcome_resolve:
  "outcome (resolve v net raw) =
     (if upper raw = [] \<or> \<not> validate v (upper raw) then
        \<lparr>model_name = None, diagnostic = diagnostic (outcome (resolve v net raw)), matched = False\<rparr>
      else if truthy (fst (fst (resolver v net (upper raw)))) then
        \<lparr>model_name = fst (fst (resolver v net (upper raw))),
          diagnostic = snd (fst (resolver v net (upper raw))), matched = True\<rparr>
      else
        \<lparr>model_name = None, diagnostic = snd (fst (resolver v net (upper raw))), matched = False\<rparr>)"
proof -
  define key where "key = id_key v"
  define missing where "missing = missing_message v"
  define invalid where "invalid = route_invalid_message v"
  have k: "key = ''service_tag'' \<or> key = ''serial_number''"
    unfolding key_def by (rule id_key_cases)
  have r: "resolve v net = lookup (format_rule v) key missing invalid (resolver v net)"
    unfolding key_def missing_def invalid_def by (rule resolve_lookup)
  obtain mn msg log where res: "resolver v net (upper raw) = ((mn, msg), log)"
    by (metis prod.exhaust)
  show ?thesis
  proof (cases "upper raw = []")
    case True
    then show ?thesis by (simp add: r lookup_missing outcome_400)
  next
    case ne: False
    show ?thesis
    proof (cases "validate v (upper raw)")
      case False
      with ne show ?thesis by (simp add: r validate_def lookup_invalid outcome_400)
    next
      case val: True
      show ?thesis
      proof (cases "truthy mn")
        case True
        then obtain m where m: "mn = Some m" "m \<noteq> []" by (cases mn) auto
        with ne val res k show ?thesis
          using lookup_found[of raw "format_rule v" "resolver v net" m msg log key missing invalid]
          by (simp add: r validate_def outcome_200)
      next
        case False
        with ne val res k show ?thesis
          using lookup_not_found[of raw "format_rule v" "resolver v net" mn msg log key missing invalid]
          by (simp add: r validate_def outcome_404)
      qed
    qed
  qed
qed

lemma lookup_resolved_found:
  "validate v (upper raw) \<Longrightarrow> upper raw \<noteq> [] \<Longrightarrow>
   resolver v net (upper raw) = ((Some m, msg), log) \<Longrightarrow> m \<noteq> [] \<Longrightarrow>
   resolve v net raw =
     (([(''success'', JBool True), (id_key v, JStr (upper raw)), (''model_name'', JStr m),
        (''message'', JStr msg)], 200), log)"
  by (simp add: resolve_lookup validate_def lookup_found)

lemma lookup_resolved_not_found:
  "validate v (upper raw) \<Longrightarrow> upper raw \<noteq> [] \<Longrightarrow>
   resolver v net (upper raw) = ((mn, msg), log) \<Longrightarrow> \<not> truthy mn \<Longrightarrow>
   resolve v net raw =
     (([(''success'', JBool False), (id_key v, JStr (upper raw)), (''error'', JStr msg)], 404), log)"
  by (simp add: resolve_lookup validate_def lookup_not_found)

lemma match_items_nonempty: "match_items ((C, Suc lo, hi) # rest) [] = False"
  by (simp add: list_ex_iff)

lemma validate_nonempty: "validate v s \<Longrightarrow> s \<noteq> []"
  by (cases v; auto simp add: validate_def re_match_def list_ex_iff
      SERVICE_TAG_REGEX_def HP_SERIAL_REGEX_def VIEWSONIC_SERIAL_REGEX_def JUNIPER_SERIAL_REGEX_def
      CYBERPOWER_SERIAL_REGEX_def BROTHER_SERIAL_REGEX_def APPLE_SERIAL_REGEX_def ACER_SERIAL_REGEX_def
      LENOVO_SERIAL_REGEX_def CISCO_SERIAL_REGEX_def APC_SERIAL_REGEX_def MICROSOFT_SERIAL_REGEX_def
      SAMSUNG_SERIAL_REGEX_def VIZIO_SERIAL_REGEX_def TCL_SERIAL_REGEX_def)

section \<open>The empty identifier\<close>

text \<open>
  C8. For every vendor, resolving the empty identifier gives the route's missing-parameter
  answer (status 400, not matched) and no request is made, whatever the network would
  return. The empty identifier does not pass the vendor's format check either, so the
  answer shows that the empty check comes first; no resolver is called for it.
\<close>

theorem C8_empty_identifier_is_missing_input:
  "resolve v net [] = (([(''error'', JStr (missing_message v))], 400), [])
   \<and> requests_made (resolve v net []) = []
   \<and> status (resolve v net []) = 400
   \<and> outcome (resolve v net []) =
       \<lparr>model_name = None, diagnostic = missing_message v, matched = False\<rparr>
   \<and> missing_message v \<noteq> route_invalid_message v"
proof -
  have r: "resolve v net [] = (([(''error'', JStr (missing_message v))], 400), [])"
    by (simp add: resolve_lookup lookup_missing upper_Nil)
  have d: "missing_message v \<noteq> route_invalid_message v"
    by (cases v) simp_all
  show ?thesis
    by (simp add: r d requests_made_def status_def outcome_400)
qed

section \<open>Inference resolvers: generic labels, unknown prefixes, prefix order\<close>

text \<open>
  C9. For every identifier that passes the Samsung, Microsoft or TCL format check, the
  resolver returns the vendor's fixed generic label with the structure-inference message,
  and the route answers with success, that label and that message. The result depends on
  neither a prefix table nor the network, no request is made, and so a valid identifier
  of these three vendors never gives a no-match or a network failure.
\<close>

theorem C9_generic_label_vendors:
  assumes "(v, label) \<in> set [(Samsung, ''Samsung Device (Inferred)''),
                              (Microsoft, ''Microsoft Surface Device (Inferred)''),
                              (TCL, ''TCL TV/Display (Inferred)'')]"
      and "validate v s"
  shows "resolver v net s =
           ((Some label, ''Model inferred from serial number structure. Please verify.''), [])
       \<and> (upper raw = s \<longrightarrow>
            resolve v net raw =
              (([(''success'', JBool True), (''serial_number'', JStr s), (''model_name'', JStr label),
                 (''message'', JStr ''Model inferred from serial number structure. Please verify.'')],
                200), []))"
proof -
  have l: "label \<noteq> []" using assms(1) by auto
  have k: "id_key v = ''serial_number''" using assms(1) by auto
  have r: "resolver v net s =
           ((Some label, ''Model inferred from serial number structure. Please verify.''), [])"
    using assms
    by (auto simp add: validate_def offline_def get_samsung_model_name_def
        get_microsoft_model_name_def get_tcl_model_name_def inferred_from_structure_def)
  have ne: "s \<noteq> []" using assms(2) by (rule validate_nonempty)
  show ?thesis
    using lookup_resolved_found[of v raw net label _ "[]"] assms(2) ne r l k
    by auto
qed

text \<open>An 11-character Samsung serial number, sent in lower case.\<close>

theorem C9_generic_label_vendors_witness:
  "validate Samsung ''R58M12ABCDE''
   \<and> resolve Samsung (\<lambda>u. Page []) ''r58m12abcde'' =
       (([(''success'', JBool True), (''serial_number'', JStr ''R58M12ABCDE''),
          (''model_name'', JStr ''Samsung Device (Inferred)''),
          (''message'', JStr ''Model inferred from serial number structure. Please verify.'')],
         200), [])"
proof -
  have v: "validate Samsung ''R58M12ABCDE''" by code_simp
  have u: "upper ''r58m12abcde'' = ''R58M12ABCDE''" by code_simp
  show ?thesis
    using C9_generic_label_vendors[of Samsung "''Samsung Device (Inferred)''" "''R58M12ABCDE''" "\<lambda>u. Page []" "''r58m12abcde''"] v u
    by simp
qed

text \<open>
  C4. For every valid CyberPower identifier the resolver looks up the upper-cased
  3-character prefix first and returns its entry when there is one; the 2-character prefix
  decides only when the 3-character prefix has no entry. An identifier whose prefix is
  \<open>CP1\<close> gets the 3-character entry \<open>CyberPower CP1500PFCLCD\<close>, although its
  2-character prefix \<open>CP\<close> has an entry of its own.
\<close>

theorem C4_cyberpower_longer_prefix_first:
  assumes "validate CyberPower s"
  shows "(\<forall>m. cyberpower_prefix_to_model (upper (take 3 s)) = Some m \<longrightarrow>
            get_cyberpower_model_name s = (Some m, inferred_from_prefix (upper (take 3 s))))
       \<and> (\<forall>m. cyberpower_prefix_to_model (upper (take 3 s)) = None \<and>
              cyberpower_prefix_to_model (upper (take 2 s)) = Some m \<longrightarrow>
            get_cyberpower_model_name s = (Some m, inferred_from_prefix (upper (take 2 s))))
       \<and> (upper (take 3 s) = ''CP1'' \<longrightarrow>
            get_cyberpower_model_name s =
              (Some ''CyberPower CP1500PFCLCD'', inferred_from_prefix ''CP1'')
            \<and> cyberpower_prefix_to_model (upper (take 2 s)) = Some ''CyberPower CP Series UPS'')"
proof -
  have v: "re_match CYBERPOWER_SERIAL_REGEX s"
    using assms by (simp add: validate_def)
  have cp1: "cyberpower_prefix_to_model ''CP1'' = Some ''CyberPower CP1500PFCLCD''"
    by (simp add: cyberpower_prefix_to_model_def)
  have cp: "cyberpower_prefix_to_model ''CP'' = Some ''CyberPower CP Series UPS''"
    by (simp add: cyberpower_prefix_to_model_def)
  have two: "upper (take 3 s) = ''CP1'' \<Longrightarrow> upper (take 2 s) = ''CP''"
  proof -
    assume a: "upper (take 3 s) = ''CP1''"
    have "take 2 (upper (take 3 s)) = upper (take 2 s)"
      by (simp add: upper_def take_map)
    with a show ?thesis by simp
  qed
  show ?thesis
    using v cp1 cp two by (auto simp add: get_cyberpower_model_name_def Let_def)
qed

text \<open>The specification's example, \<open>cp1500xxxxxx\<close> upper-cased.\<close>

theorem C4_cyberpower_longer_prefix_first_witness:
  "validate CyberPower ''CP1500XXXXXX''
   \<and> upper ''cp1500xxxxxx'' = ''CP1500XXXXXX''
   \<and> get_cyberpower_model_name ''CP1500XXXXXX'' =
       (Some ''CyberPower CP1500PFCLCD'',
        ''Model inferred from serial number prefix '' @ [CHR 0x27] @ ''CP1'' @ [CHR 0x27]
          @ ''. Please verify.'')"
proof -
  have v: "validate CyberPower ''CP1500XXXXXX''" by code_simp
  have u: "upper ''cp1500xxxxxx'' = ''CP1500XXXXXX''" by code_simp
  have p: "upper (take 3 ''CP1500XXXXXX'') = ''CP1''" by code_simp
  show ?thesis
    using C4_cyberpower_longer_prefix_first[OF v] v u p
    by (simp add: inferred_from_prefix_def quoted_def)
qed



section \<open>Validation\<close>














text \<open>Without the trimming the rule fails: a final newline passes the check.\<close>

lemma validate_final_newline:
  "validate Dell (''A1B2C3D'' @ [newline]) \<and> \<not> documented_rule Dell (''A1B2C3D'' @ [newline])"
  by code_simp

section \<open>The outcome invariant\<close>

lemmas inference_defs =
  get_apple_model_name_def get_cisco_model_name_def get_tcl_model_name_def
  get_vizio_model_name_def get_samsung_model_name_def get_microsoft_model_name_def
  get_apc_model_name_def get_brother_model_name_def get_cyberpower_model_name_def
  get_juniper_model_name_def

lemmas scrape_defs =
  get_lenovo_model_name_def get_acer_model_name_def get_viewsonic_model_name_def
  get_hp_model_name_def get_dell_model_name_def

lemma request_failed_result:
  "fst (request_failed nf e) = None"
  "nf \<noteq> [] \<Longrightarrow> snd (request_failed nf e) \<noteq> []"
  "hd nf = CHR ''S'' \<Longrightarrow> nf \<noteq> [] \<Longrightarrow> hd (snd (request_failed nf e)) \<in> set ''SHETA''"
  by (cases e; simp)+

lemma inference_message_nonempty:
  "snd (get_apple_model_name s) \<noteq> []" "snd (get_cisco_model_name s) \<noteq> []"
  "snd (get_tcl_model_name s) \<noteq> []" "snd (get_vizio_model_name s) \<noteq> []"
  "snd (get_samsung_model_name s) \<noteq> []" "snd (get_microsoft_model_name s) \<noteq> []"
  "snd (get_apc_model_name s) \<noteq> []" "snd (get_brother_model_name s) \<noteq> []"
  "snd (get_cyberpower_model_name s) \<noteq> []" "snd (get_juniper_model_name s) \<noteq> []"
  by (simp_all add: inference_defs Let_def inferred_from_prefix_def inferred_from_structure_def
      split: option.splits)

lemma scrape_message_nonempty:
  "snd (fst (get_lenovo_model_name net s)) \<noteq> []" "snd (fst (get_acer_model_name net s)) \<noteq> []"
  "snd (fst (get_viewsonic_model_name net s)) \<noteq> []" "snd (fst (get_hp_model_name net s)) \<noteq> []"
  "snd (fst (get_dell_model_name net s)) \<noteq> []"
  by (simp_all add: scrape_defs Let_def request_failed_result split: option.splits fetch.splits)

lemma resolver_message_nonempty: "snd (fst (resolver v net s)) \<noteq> []"
  by (cases v) (simp_all add: offline_def inference_message_nonempty scrape_message_nonempty)

lemma rejection_messages_nonempty: "missing_message v \<noteq> []" "route_invalid_message v \<noteq> []"
  by (cases v; simp)+

lemma outcome_resolve_missing:
  "upper raw = [] \<Longrightarrow>
   outcome (resolve v net raw) = \<lparr>model_name = None, diagnostic = missing_message v, matched = False\<rparr>"
  by (simp add: resolve_lookup lookup_missing outcome_400)

lemma outcome_resolve_invalid:
  "upper raw \<noteq> [] \<Longrightarrow> \<not> validate v (upper raw) \<Longrightarrow>
   outcome (resolve v net raw) =
     \<lparr>model_name = None, diagnostic = route_invalid_message v, matched = False\<rparr>"
  by (simp add: resolve_lookup lookup_invalid outcome_400 validate_def)

text \<open>
  C7. For every vendor, network and identifier, the one outcome of a resolution has a
  non-empty diagnostic, and its \<open>matched\<close> flag is true exactly when its model name is
  present and non-empty; so no outcome has a non-empty model name with \<open>matched\<close> false,
  or \<open>matched\<close> true with an empty model name. Every resolver's message is non-empty
  too, on every identifier.
\<close>

theorem C7_outcome_invariant:
  "diagnostic (outcome (resolve v net raw)) \<noteq> []
   \<and> matched (outcome (resolve v net raw)) = truthy (model_name (outcome (resolve v net raw)))
   \<and> snd (fst (resolver v net s)) \<noteq> []"
proof -
  consider (missing) "upper raw = []"
    | (invalid) "upper raw \<noteq> []" "\<not> validate v (upper raw)"
    | (resolved) "upper raw \<noteq> []" "validate v (upper raw)"
    by blast
  then have "diagnostic (outcome (resolve v net raw)) \<noteq> []
     \<and> matched (outcome (resolve v net raw)) = truthy (model_name (outcome (resolve v net raw)))"
  proof cases
    case missing
    then show ?thesis
      by (simp add: outcome_resolve_missing rejection_messages_nonempty)
  next
    case invalid
    then show ?thesis
      by (simp add: outcome_resolve_invalid rejection_messages_nonempty)
  next
    case resolved
    then show ?thesis
      by (subst (1 2 3) outcome_resolve) (simp add: resolver_message_nonempty)
  qed
  then show ?thesis
    by (simp add: resolver_message_nonempty)
qed

text \<open>
  A Dell page whose \<open>h1\<close> of class \<open>product-name\<close> holds only a blank: the resolver
  returns the empty name with its success message, and the route answers no match.
\<close>

theorem C7_outcome_invariant_witness:
  "outcome (resolve Dell
      (\<lambda>u. Page [\<lparr>elem_tag = ''h1'', elem_classes = [''product-name''], elem_id = None,
                    elem_text = '' ''\<rparr>]) ''a1b2c3d'')
     = \<lparr>model_name = None, diagnostic = ''Model name scraped successfully.'', matched = False\<rparr>
   \<and> diagnostic (outcome (resolve Dell
      (\<lambda>u. Page [\<lparr>elem_tag = ''h1'', elem_classes = [''product-name''], elem_id = None,
                    elem_text = '' ''\<rparr>]) ''a1b2c3d'')) \<noteq> []"
proof -
  have "outcome (resolve Dell
      (\<lambda>u. Page [\<lparr>elem_tag = ''h1'', elem_classes = [''product-name''], elem_id = None,
                    elem_text = '' ''\<rparr>]) ''a1b2c3d'')
     = \<lparr>model_name = None, diagnostic = ''Model name scraped successfully.'', matched = False\<rparr>"
    by code_simp
  then show ?thesis
    using C7_outcome_invariant[of Dell
      "\<lambda>u. Page [\<lparr>elem_tag = ''h1'', elem_classes = [''product-name''], elem_id = None,
                    elem_text = '' ''\<rparr>]" "''a1b2c3d''" "[]"]
    by blast
qed

section \<open>The resolver's own format check\<close>

lemma inference_invalid_branch:
  "(get_apple_model_name s = (None, resolver_invalid_message Apple)) = (\<not> validate Apple s)"
  "(get_cisco_model_name s = (None, resolver_invalid_message Cisco)) = (\<not> validate Cisco s)"
  "(get_tcl_model_name s = (None, resolver_invalid_message TCL)) = (\<not> validate TCL s)"
  "(get_vizio_model_name s = (None, resolver_invalid_message Vizio)) = (\<not> validate Vizio s)"
  "(get_samsung_model_name s = (None, resolver_invalid_message Samsung)) = (\<not> validate Samsung s)"
  "(get_microsoft_model_name s = (None, resolver_invalid_message Microsoft)) = (\<not> validate Microsoft s)"
  "(get_apc_model_name s = (None, resolver_invalid_message APC)) = (\<not> validate APC s)"
  "(get_brother_model_name s = (None, resolver_invalid_message Brother)) = (\<not> validate Brother s)"
  "(get_cyberpower_model_name s = (None, resolver_invalid_message CyberPower)) = (\<not> validate CyberPower s)"
  "(get_juniper_model_name s = (None, resolver_invalid_message Juniper)) = (\<not> validate Juniper s)"
  by (simp_all add: inference_defs validate_def Let_def split: option.splits)
     (cases "vizio_model_map (take 4 s)"; simp)

lemma request_failed_not_invalid:
  "request_failed (CHR ''S'' # nf) e \<noteq> (None, CHR ''I'' # m)"
  by (cases e) simp_all

lemma scrape_invalid_branch:
  "(fst (get_lenovo_model_name net s) = (None, resolver_invalid_message Lenovo)) = (\<not> validate Lenovo s)"
  "(fst (get_acer_model_name net s) = (None, resolver_invalid_message Acer)) = (\<not> validate Acer s)"
  "(fst (get_viewsonic_model_name net s) = (None, resolver_invalid_message ViewSonic)) = (\<not> validate ViewSonic s)"
  "(fst (get_hp_model_name net s) = (None, resolver_invalid_message HP)) = (\<not> validate HP s)"
  "(fst (get_dell_model_name net s) = (None, resolver_invalid_message Dell)) = (\<not> validate Dell s)"
  by (simp_all add: scrape_defs validate_def Let_def request_failed_not_invalid
      split: option.splits fetch.splits)

lemma resolver_invalid_branch:
  "(fst (resolver v net s) = (None, resolver_invalid_message v)) = (\<not> validate v s)"
  by (cases v)
     (simp_all only: resolver.simps offline_def fst_conv inference_invalid_branch
        scrape_invalid_branch)

lemma status_resolve:
  "status (resolve v net raw) =
     (if upper raw = [] \<or> \<not> validate v (upper raw) then 400
      else if truthy (fst (fst (resolver v net (upper raw)))) then 200 else 404)"
proof -
  obtain mn msg log where res: "resolver v net (upper raw) = ((mn, msg), log)"
    by (metis prod.exhaust)
  show ?thesis
  proof (cases "upper raw = [] \<or> \<not> validate v (upper raw)")
    case True
    then show ?thesis
      by (cases "upper raw = []")
         (simp_all add: status_def resolve_lookup validate_def lookup_missing lookup_invalid)
  next
    case False
    then have a: "upper raw \<noteq> []" "validate v (upper raw)" by auto
    show ?thesis
    proof (cases "truthy mn")
      case True
      then obtain m where "mn = Some m" "m \<noteq> []" by (cases mn) auto
      then show ?thesis
        using lookup_resolved_found[OF a(2) a(1), of net m msg log] res a
        by (simp add: status_def)
    next
      case False
      then show ?thesis
        using lookup_resolved_not_found[OF a(2) a(1), of net mn msg log] res a
        by (simp add: status_def)
    qed
  qed
qed

text \<open>
  C10. For every vendor the route and the resolver test the same regex. A resolver returns
  \<open>None\<close> with its invalid-format message exactly on the identifiers that fail the
  check; the route answers 400 itself exactly when the upper-cased identifier is empty or
  fails that check, and in every other answer the resolver was given an identifier that
  passes it, so that its result is not the invalid-format one: through its route, the
  resolver's invalid-format branch is never taken.
\<close>

theorem C10_resolver_format_branch_unreachable:
  "(fst (resolver v net s) = (None, resolver_invalid_message v)) = (\<not> validate v s)
   \<and> (status (resolve v net raw) = 400) = (upper raw = [] \<or> \<not> validate v (upper raw))
   \<and> (status (resolve v net raw) = 400
        \<or> (validate v (upper raw)
            \<and> fst (resolver v net (upper raw)) \<noteq> (None, resolver_invalid_message v)
            \<and> diagnostic (outcome (resolve v net raw)) = snd (fst (resolver v net (upper raw)))))
   \<and> resolve v net raw =
       lookup (format_rule v) (id_key v) (missing_message v) (route_invalid_message v)
         (resolver v net) raw
   \<and> validate v s = re_match (format_rule v) s"
proof -
  have a: "(fst (resolver v net s) = (None, resolver_invalid_message v)) = (\<not> validate v s)"
    by (rule resolver_invalid_branch)
  have b: "(status (resolve v net raw) = 400) = (upper raw = [] \<or> \<not> validate v (upper raw))"
    by (simp add: status_resolve)
  have c: "status (resolve v net raw) = 400
        \<or> (validate v (upper raw)
            \<and> fst (resolver v net (upper raw)) \<noteq> (None, resolver_invalid_message v)
            \<and> diagnostic (outcome (resolve v net raw)) = snd (fst (resolver v net (upper raw))))"
  proof (cases "status (resolve v net raw) = 400")
    case True
    then show ?thesis by simp
  next
    case False
    with b have v: "upper raw \<noteq> []" "validate v (upper raw)" by auto
    have "diagnostic (outcome (resolve v net raw)) = snd (fst (resolver v net (upper raw)))"
      using v by (subst outcome_resolve) simp
    with v show ?thesis by (simp add: resolver_invalid_branch)
  qed
  show ?thesis
    using a b c by (simp add: resolve_lookup validate_def)
qed

text \<open>
  Apple, whose route and resolver use the same words for an invalid format: a valid
  serial number, and one that the route rejects.
\<close>

theorem C10_resolver_format_branch_unreachable_witness:
  "validate Apple (upper ''c02abcdefghi'')
   \<and> status (resolve Apple (\<lambda>u. Page []) ''c02abcdefghi'') \<noteq> 400
   \<and> fst (resolver Apple (\<lambda>u. Page []) (upper ''c02abcdefghi'')) \<noteq> (None, resolver_invalid_message Apple)
   \<and> \<not> validate Apple (upper ''c02'')
   \<and> status (resolve Apple (\<lambda>u. Page []) ''c02'') = 400
   \<and> fst (resolver Apple (\<lambda>u. Page []) (upper ''c02'')) = (None, resolver_invalid_message Apple)
   \<and> resolver_invalid_message Apple = route_invalid_message Apple"
proof -
  have v: "validate Apple (upper ''c02abcdefghi'')" by code_simp
  have n: "\<not> validate Apple (upper ''c02'')" by code_simp
  have m: "resolver_invalid_message Apple = route_invalid_message Apple" by simp
  have e: "upper ''c02abcdefghi'' \<noteq> []" by code_simp
  show ?thesis
    using C10_resolver_format_branch_unreachable[of Apple "\<lambda>u. Page []" "upper ''c02abcdefghi''" "''c02abcdefghi''"]
      C10_resolver_format_branch_unreachable[of Apple "\<lambda>u. Page []" "upper ''c02''" "''c02''"] v n m e
    by blast
qed

section \<open>Acer's fallback label\<close>

text \<open>The Acer resolver on an identifier that passes its check, branch by branch.\<close>

lemma acer_valid:
  "validate Acer s \<Longrightarrow>
   get_acer_model_name net s =
     (case net (acer_url s) of
        Page soup \<Rightarrow>
          (case or_else (find_class soup ''h1'' ''product-name'')
                        (find_class soup ''h2'' ''product-name'') of
             Some model_element \<Rightarrow>
               if strip (elem_text model_element) \<noteq> [] then
                 (Some (strip (elem_text model_element)), ''Model found via web scraping.'')
               else if length s = 22 then
                 (Some (''Acer Product (Serial: '' @ take 5 s @ ''...)''),
                  ''Model inferred from serial number prefix. Please verify.'')
               else (None, ''Model name element not found on Acer support page.'')
           | None \<Rightarrow>
               if length s = 22 then
                 (Some (''Acer Product (Serial: '' @ take 5 s @ ''...)''),
                  ''Model inferred from serial number prefix. Please verify.'')
               else (None, ''Model name element not found on Acer support page.''))
      | Raised e \<Rightarrow>
          if length s = 22 then
            (Some (''Acer Product (Serial: '' @ take 5 s @ ''...)''),
             ''Model inferred from serial number prefix (Web scraping failed). Please verify.'')
          else if length s \<ge> 11 \<and> isdigit s then
            (Some (''Acer Product (SNID: '' @ s @ '')''),
             ''Model inferred from SNID (Web scraping failed). Please verify.'')
          else (None, ''Request failed: '' @ exc_str e),
      [acer_url s])"
  by (simp add: get_acer_model_name_def validate_def Let_def split: fetch.splits option.splits)

text \<open>
  C1, as the code has it. For every identifier of exactly 22 characters that passes the
  Acer check, the label \<open>Acer Product (Serial: <first 5 characters>...)\<close> is returned,
  with a match, in both cases: when the request raises an exception, and when the page is
  fetched but no \<open>product-name\<close> element gives a non-empty name. The two cases differ
  only in the message, which says \<open>(Web scraping failed)\<close> after an exception. A
  fetched page without a name gives no match only for an identifier that is not 22
  characters long (an SNID). At the route, \<open>matched\<close> is the truth value of the
  resolver's model name.
\<close>

theorem C1_acer_fallback_on_failure_and_on_empty_parse:
  assumes "validate Acer s"
  shows "(length s = 22 \<and> net (acer_url s) = Raised e \<longrightarrow>
            get_acer_model_name net s =
              ((Some (''Acer Product (Serial: '' @ take 5 s @ ''...)''),
                ''Model inferred from serial number prefix (Web scraping failed). Please verify.''),
               [acer_url s]))
       \<and> (length s = 22 \<and> net (acer_url s) = Page soup
            \<and> (\<forall>el. or_else (find_class soup ''h1'' ''product-name'')
                              (find_class soup ''h2'' ''product-name'') = Some el
                      \<longrightarrow> strip (elem_text el) = []) \<longrightarrow>
            get_acer_model_name net s =
              ((Some (''Acer Product (Serial: '' @ take 5 s @ ''...)''),
                ''Model inferred from serial number prefix. Please verify.''),
               [acer_url s]))
       \<and> (length s \<noteq> 22 \<and> net (acer_url s) = Page soup
            \<and> (\<forall>el. or_else (find_class soup ''h1'' ''product-name'')
                              (find_class soup ''h2'' ''product-name'') = Some el
                      \<longrightarrow> strip (elem_text el) = []) \<longrightarrow>
            get_acer_model_name net s =
              ((None, ''Model name element not found on Acer support page.''), [acer_url s]))
       \<and> (\<forall>raw. upper raw = s \<longrightarrow>
            matched (outcome (resolve Acer net raw)) = truthy (fst (fst (get_acer_model_name net s))))"
proof -
  have m: "\<And>raw. upper raw = s \<Longrightarrow>
      matched (outcome (resolve Acer net raw)) = truthy (fst (fst (get_acer_model_name net s)))"
    using assms validate_nonempty[OF assms] by (subst outcome_resolve) auto
  show ?thesis
    using m by (auto simp add: acer_valid[OF assms] split: option.splits)
qed

text \<open>A read timeout on a 22-character serial number, and a page without elements on an SNID.\<close>

theorem C1_acer_fallback_on_failure_and_on_empty_parse_witness:
  "validate Acer ''NXABC1234567890ABCDEFG''
   \<and> get_acer_model_name (\<lambda>u. Raised (ReadTimeout ''Read timed out.'')) ''NXABC1234567890ABCDEFG'' =
       ((Some ''Acer Product (Serial: NXABC...)'',
         ''Model inferred from serial number prefix (Web scraping failed). Please verify.''),
        [acer_url ''NXABC1234567890ABCDEFG''])
   \<and> validate Acer ''12345678901''
   \<and> get_acer_model_name (\<lambda>u. Page []) ''12345678901'' =
       ((None, ''Model name element not found on Acer support page.''), [acer_url ''12345678901''])"
proof -
  have v1: "validate Acer ''NXABC1234567890ABCDEFG''" by code_simp
  have v2: "validate Acer ''12345678901''" by code_simp
  have e: "or_else (find_class [] ''h1'' ''product-name'') (find_class [] ''h2'' ''product-name'') = None"
    by (simp add: find_class_def)
  show ?thesis
    using C1_acer_fallback_on_failure_and_on_empty_parse[OF v1,
        of "\<lambda>u. Raised (ReadTimeout ''Read timed out.'')" "ReadTimeout ''Read timed out.''"]
      C1_acer_fallback_on_failure_and_on_empty_parse[OF v2, of "\<lambda>u. Page []" _ "[]"] v1 v2 e
    by simp
qed

text \<open>
  The claim as stated fails: the page is fetched, it has no element at all, the
  identifier has 22 characters, and the outcome is a match with the fallback label.
\<close>

theorem C1_empty_parse_counterexample:
  "validate Acer ''NXABC1234567890ABCDEFG''
   \<and> length ''NXABC1234567890ABCDEFG'' = 22
   \<and> get_acer_model_name (\<lambda>u. Page []) ''NXABC1234567890ABCDEFG'' =
       ((Some ''Acer Product (Serial: NXABC...)'',
         ''Model inferred from serial number prefix. Please verify.''),
        [''https://www.acer.com/us-en/support/product-support/serial-number-lookup?sn=NXABC1234567890ABCDEFG''])
   \<and> matched (outcome (resolve Acer (\<lambda>u. Page []) ''NXABC1234567890ABCDEFG''))"
  by code_simp

section \<open>The order of extraction\<close>












section \<open>Failures as outcomes\<close>











end
